theory Spec2Isabelle
  imports Main
begin

section \<open>The user service of apps/go-http-server (main.go)\<close>

text \<open>
  The embedding follows \<^verbatim>\<open>src/apps/go-http-server/src/main.go\<close>. Go's \<^verbatim>\<open>int\<close> is
  modelled as \<^typ>\<open>int\<close>: the id counter starts at 1 and grows by one per call, so it
  stays far below the 64-bit limit in every run that can take place; where the width is
  visible (the range check of \<^verbatim>\<open>strconv.Atoi\<close>) it is written out.
\<close>

subsection \<open>User and Repo (lines 23-69)\<close>

record User =
  ID :: int
  Name :: string

text \<open>The zero value of the struct, which a failed map lookup yields.\<close>

definition zero_User :: User where
  "zero_User = \<lparr>ID = 0, Name = ''''\<rparr>"

text \<open>
  A Go map is a reference: \<^verbatim>\<open>map[int]User\<close> values are addresses into a heap of map
  objects, and every holder of the address sees the updates of the others. The mutex of
  \<^verbatim>\<open>Repo\<close> is not modelled: each method is one atomic step on the state.
\<close>

type_synonym addr = nat
type_synonym umap = "int \<rightharpoonup> User"

record heap =
  maps :: "addr \<Rightarrow> umap"
  free :: addr

definition make_map :: "heap \<Rightarrow> addr \<times> heap" where
  "make_map h = (free h, h\<lparr>maps := (maps h)(free h := Map.empty), free := Suc (free h)\<rparr>)"

record Repo =
  users :: addr
  nextID :: int

definition NewRepo :: "heap \<Rightarrow> Repo \<times> heap" where
  "NewRepo h = (let (a, h') = make_map h in (\<lparr>users = a, nextID = 1\<rparr>, h'))"

text \<open>\<^verbatim>\<open>Get\<close> returns the field \<^verbatim>\<open>r.users\<close> itself, and the error \<^verbatim>\<open>nil\<close> (here \<open>None\<close>).\<close>

definition Get :: "Repo \<Rightarrow> heap \<Rightarrow> addr \<times> string option" where
  "Get r h = (users r, None)"

definition Find :: "Repo \<Rightarrow> heap \<Rightarrow> int \<Rightarrow> User \<times> bool" where
  "Find r h i = (case maps h (users r) i of Some u \<Rightarrow> (u, True) | None \<Rightarrow> (zero_User, False))"

definition Save :: "Repo \<Rightarrow> heap \<Rightarrow> User \<Rightarrow> User \<times> Repo \<times> heap" where
  "Save r h user =
     (let user' = user\<lparr>ID := nextID r\<rparr>;
          h' = h\<lparr>maps := (maps h)(users r := (maps h (users r))(ID user' \<mapsto> user'))\<rparr>;
          r' = r\<lparr>nextID := nextID r + 1\<rparr>
      in (user', r', h'))"

definition Delete :: "Repo \<Rightarrow> heap \<Rightarrow> int \<Rightarrow> heap" where
  "Delete r h i = h\<lparr>maps := (maps h)(users r := (maps h (users r))(i := None))\<rparr>"

text \<open>A sequence of \<^verbatim>\<open>Save\<close> calls, collecting the returned users in call order.\<close>

fun save_all :: "Repo \<Rightarrow> heap \<Rightarrow> User list \<Rightarrow> User list \<times> Repo \<times> heap" where
  "save_all r h [] = ([], r, h)"
| "save_all r h (u # us) =
     (case Save r h u of (u', r', h') \<Rightarrow>
        (case save_all r' h' us of (rs, r'', h'') \<Rightarrow> (u' # rs, r'', h'')))"

text \<open>What a holder of a map address reads through it.\<close>

definition deref :: "heap \<Rightarrow> addr \<Rightarrow> umap" where
  "deref h a = maps h a"

definition empty_heap :: heap where
  "empty_heap = \<lparr>maps = (\<lambda>_. Map.empty), free = 0\<rparr>"

subsection \<open>Errors, and \<^verbatim>\<open>strconv.Atoi\<close> as the handlers use it\<close>

datatype num_err = ErrSyntax | ErrRange

text \<open>
  Error values stay symbolic: \<open>NumError f s e\<close> is \<^verbatim>\<open>&strconv.NumError{Func: f, Num: s, Err: e}\<close>,
  \<open>EOF\<close> and \<open>ErrUnexpectedEOF\<close> are the errors of package io, \<open>SyntaxError\<close> and
  \<open>UnmarshalTypeError\<close> stand for an error of that type of encoding/json, and
  \<open>OtelError m\<close> for an error of the meter.
\<close>

datatype go_error =
    NumError string string num_err
  | EOF | ErrUnexpectedEOF | SyntaxError | UnmarshalTypeError
  | OtelError string

definition is_digit :: "char \<Rightarrow> bool" where
  "is_digit c = (c \<in> set ''0123456789'')"

definition digit_val :: "char \<Rightarrow> int" where
  "digit_val c = of_char c - 48"

text \<open>
  The digit loop of \<^verbatim>\<open>strconv.ParseUint\<close> in base 10 with 64 bits: a byte that is no digit
  is a syntax error, a value that leaves the unsigned range is a range error, whichever
  comes first from the left.
\<close>

fun parse_digits :: "int \<Rightarrow> string \<Rightarrow> num_err + int" where
  "parse_digits n [] = Inr n"
| "parse_digits n (c # cs) =
     (if \<not> is_digit c then Inl ErrSyntax
      else if 2 ^ 64 \<le> n * 10 + digit_val c then Inl ErrRange
      else parse_digits (n * 10 + digit_val c) cs)"

text \<open>
  \<^verbatim>\<open>strconv.Atoi\<close> on a 64-bit platform: an optional sign, then at least one digit, and
  the value must fit \<^verbatim>\<open>int\<close>.
\<close>

definition Atoi :: "string \<Rightarrow> go_error + int" where
  "Atoi s =
     (if s = [] then Inl (NumError ''Atoi'' s ErrSyntax)
      else
        let neg = (hd s = CHR ''-'');
            ds = (if hd s = CHR ''-'' \<or> hd s = CHR ''+'' then tl s else s)
        in if ds = [] then Inl (NumError ''Atoi'' s ErrSyntax)
           else (case parse_digits 0 ds of
                   Inl e \<Rightarrow> Inl (NumError ''Atoi'' s e)
                 | Inr un \<Rightarrow>
                     if \<not> neg \<and> 2 ^ 63 \<le> un then Inl (NumError ''Atoi'' s ErrRange)
                     else if neg \<and> 2 ^ 63 < un then Inl (NumError ''Atoi'' s ErrRange)
                     else Inr (if neg then - un else un)))"

subsection \<open>The JSON decoder as \<^verbatim>\<open>CreateUserHandler\<close> uses it\<close>

text \<open>
  \<^verbatim>\<open>json.NewDecoder(r.Body).Decode(&user)\<close> reads the first JSON value of the body with
  the scanner of encoding/json and stores it into the struct. The scanner is a state
  machine over the bytes; here it also builds the value. Strings and numbers are kept as
  they are written; keys and string values are unquoted when they are stored.
\<close>

datatype json =
    JNull | JBool bool | JNumber string | JString string
  | JArray "json list" | JObject "(string \<times> json) list"

text \<open>
  An array or object that is still open: the elements read so far (latest first), and for
  an object the key that waits for its value.
\<close>

datatype frame = FArray "json list" | FObject "(string \<times> json) list" "string option"

text \<open>
  The scanner states of encoding/json (\<^verbatim>\<open>stateBeginValue\<close>, \<^verbatim>\<open>stateInString\<close>, \<^verbatim>\<open>state1\<close>,
  ...). The states inside a string or a number carry the bytes read so far, latest first;
  \<open>MLit rest v\<close> is inside \<^verbatim>\<open>true\<close>, \<^verbatim>\<open>false\<close> or \<^verbatim>\<open>null\<close>, with \<open>rest\<close> still to come.
\<close>

datatype mode =
    MBeginValue | MBeginValueOrEmpty | MBeginStringOrEmpty | MBeginString | MEndValue
  | MInString string | MInStringEsc string | MInStringEscU nat string
  | MNeg string | M0 string | M1 string | MDot string | MDot0 string
  | ME string | MESign string | ME0 string
  | MLit string json

datatype outcome = Continue mode "frame list" | Done json | Failed go_error

definition isSpace :: "char \<Rightarrow> bool" where
  "isSpace c = (c = CHR '' '' \<or> c = CHR 0x09 \<or> c = CHR 0x0D \<or> c = CHR 0x0A)"

definition is_hex :: "char \<Rightarrow> bool" where
  "is_hex c = (c \<in> set ''0123456789abcdefABCDEF'')"

definition maxNestingDepth :: nat where
  "maxNestingDepth = 10000"

text \<open>A value is complete: it is the result, or it goes into the innermost open container.\<close>

fun finish :: "json \<Rightarrow> frame list \<Rightarrow> outcome" where
  "finish v [] = Done v"
| "finish v (FArray es # st) = Continue MEndValue (FArray (v # es) # st)"
| "finish v (FObject ms None # st) =
     (case v of
        JString k \<Rightarrow> Continue MEndValue (FObject ms (Some k) # st)
      | _ \<Rightarrow> Failed SyntaxError)"
| "finish v (FObject ms (Some k) # st) = Continue MEndValue (FObject ((k, v) # ms) None # st)"

definition push :: "frame \<Rightarrow> mode \<Rightarrow> frame list \<Rightarrow> outcome" where
  "push f m st =
     (if length (f # st) \<le> maxNestingDepth then Continue m (f # st) else Failed SyntaxError)"

text \<open>\<^verbatim>\<open>stateEndValue\<close>: after a value inside a container, or after a key.\<close>

definition step_EndValue :: "frame list \<Rightarrow> char \<Rightarrow> outcome" where
  "step_EndValue st c =
     (if isSpace c then Continue MEndValue st
      else
        (case st of
           [] \<Rightarrow> Failed SyntaxError
         | FObject ms (Some k) # st' \<Rightarrow>
             if c = CHR '':'' then Continue MBeginValue st else Failed SyntaxError
         | FObject ms None # st' \<Rightarrow>
             if c = CHR '','' then Continue MBeginString st
             else if c = CHR ''}'' then finish (JObject (rev ms)) st'
             else Failed SyntaxError
         | FArray es # st' \<Rightarrow>
             if c = CHR '','' then Continue MBeginValue st
             else if c = CHR '']'' then finish (JArray (rev es)) st'
             else Failed SyntaxError))"

text \<open>\<^verbatim>\<open>stateBeginValue\<close>.\<close>

definition step_BeginValue :: "frame list \<Rightarrow> char \<Rightarrow> outcome" where
  "step_BeginValue st c =
     (if isSpace c then Continue MBeginValue st
      else if c = CHR ''{'' then push (FObject [] None) MBeginStringOrEmpty st
      else if c = CHR ''['' then push (FArray []) MBeginValueOrEmpty st
      else if c = CHR 0x22 then Continue (MInString []) st
      else if c = CHR ''-'' then Continue (MNeg [c]) st
      else if c = CHR ''0'' then Continue (M0 [c]) st
      else if is_digit c then Continue (M1 [c]) st
      else if c = CHR ''t'' then Continue (MLit ''rue'' (JBool True)) st
      else if c = CHR ''f'' then Continue (MLit ''alse'' (JBool False)) st
      else if c = CHR ''n'' then Continue (MLit ''ull'' JNull) st
      else Failed SyntaxError)"

definition step_BeginString :: "frame list \<Rightarrow> char \<Rightarrow> outcome" where
  "step_BeginString st c =
     (if isSpace c then Continue MBeginString st
      else if c = CHR 0x22 then Continue (MInString []) st
      else Failed SyntaxError)"

text \<open>A number ends at a byte that cannot continue it; that byte is then looked at again.\<close>

definition end_number :: "string \<Rightarrow> frame list \<Rightarrow> char \<Rightarrow> outcome" where
  "end_number acc st c =
     (case finish (JNumber (rev acc)) st of
        Continue m st' \<Rightarrow> step_EndValue st' c
      | other \<Rightarrow> other)"

definition scan_step :: "mode \<Rightarrow> frame list \<Rightarrow> char \<Rightarrow> outcome" where
  "scan_step m st c =
     (case m of
        MBeginValue \<Rightarrow> step_BeginValue st c
      | MBeginValueOrEmpty \<Rightarrow>
          if isSpace c then Continue MBeginValueOrEmpty st
          else if c = CHR '']'' then step_EndValue st c
          else step_BeginValue st c
      | MBeginStringOrEmpty \<Rightarrow>
          if isSpace c then Continue MBeginStringOrEmpty st
          else if c = CHR ''}'' then step_EndValue st c
          else step_BeginString st c
      | MBeginString \<Rightarrow> step_BeginString st c
      | MEndValue \<Rightarrow> step_EndValue st c
      | MInString acc \<Rightarrow>
          if c = CHR 0x22 then finish (JString (rev acc)) st
          else if c = CHR 0x5C then Continue (MInStringEsc (c # acc)) st
          else if (of_char c :: nat) < 32 then Failed SyntaxError
          else Continue (MInString (c # acc)) st
      | MInStringEsc acc \<Rightarrow>
          if c \<in> set ''bfnrt/'' \<or> c = CHR 0x5C \<or> c = CHR 0x22 then Continue (MInString (c # acc)) st
          else if c = CHR ''u'' then Continue (MInStringEscU 4 (c # acc)) st
          else Failed SyntaxError
      | MInStringEscU n acc \<Rightarrow>
          if \<not> is_hex c then Failed SyntaxError
          else if n \<le> 1 then Continue (MInString (c # acc)) st
          else Continue (MInStringEscU (n - 1) (c # acc)) st
      | MNeg acc \<Rightarrow>
          if c = CHR ''0'' then Continue (M0 (c # acc)) st
          else if is_digit c then Continue (M1 (c # acc)) st
          else Failed SyntaxError
      | M1 acc \<Rightarrow>
          if is_digit c then Continue (M1 (c # acc)) st
          else if c = CHR ''.'' then Continue (MDot (c # acc)) st
          else if c = CHR ''e'' \<or> c = CHR ''E'' then Continue (ME (c # acc)) st
          else end_number acc st c
      | M0 acc \<Rightarrow>
          if c = CHR ''.'' then Continue (MDot (c # acc)) st
          else if c = CHR ''e'' \<or> c = CHR ''E'' then Continue (ME (c # acc)) st
          else end_number acc st c
      | MDot acc \<Rightarrow>
          if is_digit c then Continue (MDot0 (c # acc)) st else Failed SyntaxError
      | MDot0 acc \<Rightarrow>
          if is_digit c then Continue (MDot0 (c # acc)) st
          else if c = CHR ''e'' \<or> c = CHR ''E'' then Continue (ME (c # acc)) st
          else end_number acc st c
      | ME acc \<Rightarrow>
          if c = CHR ''+'' \<or> c = CHR ''-'' then Continue (MESign (c # acc)) st
          else if is_digit c then Continue (ME0 (c # acc)) st
          else Failed SyntaxError
      | MESign acc \<Rightarrow>
          if is_digit c then Continue (ME0 (c # acc)) st else Failed SyntaxError
      | ME0 acc \<Rightarrow>
          if is_digit c then Continue (ME0 (c # acc)) st else end_number acc st c
      | MLit rest v \<Rightarrow>
          (case rest of
             [] \<Rightarrow> Failed SyntaxError
           | x # xs \<Rightarrow>
               if c \<noteq> x then Failed SyntaxError
               else if xs = [] then finish v st
               else Continue (MLit xs v) st))"

text \<open>
  The end of the body. A number at top level is complete there; a body of white space
  only is \<^verbatim>\<open>io.EOF\<close>; everything else is \<^verbatim>\<open>io.ErrUnexpectedEOF\<close>.
\<close>

definition at_eof :: "mode \<Rightarrow> frame list \<Rightarrow> go_error + json" where
  "at_eof m st =
     (case (m, st) of
        (M0 acc, []) \<Rightarrow> Inr (JNumber (rev acc))
      | (M1 acc, []) \<Rightarrow> Inr (JNumber (rev acc))
      | (MDot0 acc, []) \<Rightarrow> Inr (JNumber (rev acc))
      | (ME0 acc, []) \<Rightarrow> Inr (JNumber (rev acc))
      | (MBeginValue, []) \<Rightarrow> Inl EOF
      | _ \<Rightarrow> Inl ErrUnexpectedEOF)"

text \<open>
  \<^verbatim>\<open>readValue\<close>: run the scanner until the first value is complete. The result is the
  value and what is left of the body, which the decoder does not look at.
\<close>

fun scan :: "mode \<Rightarrow> frame list \<Rightarrow> string \<Rightarrow> go_error + json \<times> string" where
  "scan m st [] = (case at_eof m st of Inl e \<Rightarrow> Inl e | Inr v \<Rightarrow> Inr (v, []))"
| "scan m st (c # cs) =
     (case scan_step m st c of
        Continue m' st' \<Rightarrow> scan m' st' cs
      | Done v \<Rightarrow> Inr (v, case v of JNumber n \<Rightarrow> c # cs | _ \<Rightarrow> cs)
      | Failed e \<Rightarrow> Inl e)"

definition readValue :: "string \<Rightarrow> go_error + json \<times> string" where
  "readValue b = scan MBeginValue [] b"

text \<open>\<^verbatim>\<open>json.Valid\<close>: the whole text is one JSON value, with white space around it at most.\<close>

definition json_Valid :: "string \<Rightarrow> bool" where
  "json_Valid b = (case readValue b of Inl e \<Rightarrow> False | Inr (v, rest) \<Rightarrow> list_all isSpace rest)"

subsection \<open>Unquoting strings\<close>

definition hex_val :: "char \<Rightarrow> nat" where
  "hex_val c =
     (if is_digit c then of_char c - 48
      else if c \<in> set ''abcdef'' then of_char c - 87
      else of_char c - 55)"

text \<open>\<^verbatim>\<open>getu4\<close>: the code unit of \<^verbatim>\<open>\uXXXX\<close> at the start of the text, if there is one.\<close>

definition getu4 :: "string \<Rightarrow> nat option" where
  "getu4 s =
     (case s of
        b # u # h1 # h2 # h3 # h4 # _ \<Rightarrow>
          if b = CHR 0x5C \<and> u = CHR ''u'' \<and> is_hex h1 \<and> is_hex h2 \<and> is_hex h3 \<and> is_hex h4
          then Some (((hex_val h1 * 16 + hex_val h2) * 16 + hex_val h3) * 16 + hex_val h4)
          else None
      | _ \<Rightarrow> None)"

definition RuneError :: nat where
  "RuneError = 0xFFFD"

definition IsSurrogate :: "nat \<Rightarrow> bool" where
  "IsSurrogate r = (0xD800 \<le> r \<and> r < 0xE000)"

text \<open>\<^verbatim>\<open>utf16.DecodeRune\<close>, with \<open>None\<close> for a missing second code unit.\<close>

definition utf16_DecodeRune :: "nat \<Rightarrow> nat option \<Rightarrow> nat" where
  "utf16_DecodeRune r1 r2 =
     (case r2 of
        None \<Rightarrow> RuneError
      | Some r2' \<Rightarrow>
          if 0xD800 \<le> r1 \<and> r1 < 0xDC00 \<and> 0xDC00 \<le> r2' \<and> r2' < 0xE000
          then (r1 - 0xD800) * 0x400 + (r2' - 0xDC00) + 0x10000
          else RuneError)"

text \<open>\<^verbatim>\<open>utf8.EncodeRune\<close>.\<close>

definition EncodeRune :: "nat \<Rightarrow> string" where
  "EncodeRune r =
     (if r < 0x80 then [char_of r]
      else if r < 0x800 then [char_of (0xC0 + r div 0x40), char_of (0x80 + r mod 0x40)]
      else if IsSurrogate r \<or> 0x10FFFF < r then [CHR 0xEF, CHR 0xBF, CHR 0xBD]
      else if r < 0x10000
        then [char_of (0xE0 + r div 0x1000), char_of (0x80 + r div 0x40 mod 0x40),
              char_of (0x80 + r mod 0x40)]
      else [char_of (0xF0 + r div 0x40000), char_of (0x80 + r div 0x1000 mod 0x40),
            char_of (0x80 + r div 0x40 mod 0x40), char_of (0x80 + r mod 0x40)])"

text \<open>
  The length of the well-formed UTF-8 sequence at the start of the text, or 0 when there
  is none: the table of \<^verbatim>\<open>utf8.DecodeRune\<close>.
\<close>

definition in_range :: "char \<Rightarrow> nat \<Rightarrow> nat \<Rightarrow> bool" where
  "in_range c lo hi = (lo \<le> (of_char c :: nat) \<and> (of_char c :: nat) \<le> hi)"

definition utf8_len :: "string \<Rightarrow> nat" where
  "utf8_len s =
     (case s of
        [] \<Rightarrow> 0
      | c0 # s1 \<Rightarrow>
          if in_range c0 0x00 0x7F then 1
          else if in_range c0 0xC2 0xDF then
            (case s1 of c1 # _ \<Rightarrow> if in_range c1 0x80 0xBF then 2 else 0 | _ \<Rightarrow> 0)
          else if in_range c0 0xE0 0xEF then
            (case s1 of
               c1 # c2 # _ \<Rightarrow>
                 if in_range c1 (if c0 = CHR 0xE0 then 0xA0 else 0x80)
                                (if c0 = CHR 0xED then 0x9F else 0xBF)
                    \<and> in_range c2 0x80 0xBF
                 then 3 else 0
             | _ \<Rightarrow> 0)
          else if in_range c0 0xF0 0xF4 then
            (case s1 of
               c1 # c2 # c3 # _ \<Rightarrow>
                 if in_range c1 (if c0 = CHR 0xF0 then 0x90 else 0x80)
                                (if c0 = CHR 0xF4 then 0x8F else 0xBF)
                    \<and> in_range c2 0x80 0xBF \<and> in_range c3 0x80 0xBF
                 then 4 else 0
             | _ \<Rightarrow> 0)
          else 0)"

text \<open>
  \<^verbatim>\<open>unquoteBytes\<close> on the text between the quotes of a string that the scanner accepted:
  escapes are replaced, \<^verbatim>\<open>\u\<close> escapes become UTF-8 (a surrogate pair one character, a
  lone surrogate U+FFFD), and bytes that are not well-formed UTF-8 become U+FFFD.
\<close>

fun unquote :: "string \<Rightarrow> string" where
  "unquote [] = []"
| "unquote (c # cs) =
     (if c = CHR 0x5C then
        (case cs of
           [] \<Rightarrow> []
         | e # rest \<Rightarrow>
             if e = CHR ''u'' then
               (case getu4 (c # cs) of
                  None \<Rightarrow> []
                | Some rr \<Rightarrow>
                    if IsSurrogate rr then
                      (if utf16_DecodeRune rr (getu4 (drop 5 cs)) \<noteq> RuneError
                       then EncodeRune (utf16_DecodeRune rr (getu4 (drop 5 cs)))
                              @ unquote (drop 11 cs)
                       else EncodeRune RuneError @ unquote (drop 5 cs))
                    else EncodeRune rr @ unquote (drop 5 cs))
             else (if e = CHR ''b'' then CHR 0x08
                   else if e = CHR ''f'' then CHR 0x0C
                   else if e = CHR ''n'' then CHR 0x0A
                   else if e = CHR ''r'' then CHR 0x0D
                   else if e = CHR ''t'' then CHR 0x09
                   else e) # unquote rest)
      else if (of_char c :: nat) < 0x80 then c # unquote cs
      else if utf8_len (c # cs) = 0 then EncodeRune RuneError @ unquote cs
      else take (utf8_len (c # cs)) (c # cs) @ unquote (drop (utf8_len (c # cs) - 1) cs))"

subsection \<open>Storing the value into a \<^verbatim>\<open>User\<close>\<close>

definition to_lower :: "char \<Rightarrow> char" where
  "to_lower c = (if in_range c 0x41 0x5A then char_of (of_char c + (32::nat)) else c)"

text \<open>
  A key selects the field whose JSON name it equals, letter case aside. The names \<^verbatim>\<open>id\<close>
  and \<^verbatim>\<open>name\<close> have no letter with a fold outside ASCII.
\<close>

definition key_is :: "string \<Rightarrow> string \<Rightarrow> bool" where
  "key_is k name = (map to_lower k = name)"

text \<open>
  One member of the object. \<^verbatim>\<open>null\<close> leaves the field as it is; a number literal goes
  into \<^verbatim>\<open>ID\<close> when \<^verbatim>\<open>strconv.ParseInt(s, 10, 64)\<close> accepts it, which reads as \<^verbatim>\<open>Atoi\<close>
  does; a string goes into \<^verbatim>\<open>Name\<close>; any other value for these fields is an
  \<^verbatim>\<open>UnmarshalTypeError\<close>. The first error is kept and decoding goes on.
\<close>

definition save_error :: "go_error option \<Rightarrow> go_error option" where
  "save_error e = (case e of None \<Rightarrow> Some UnmarshalTypeError | Some x \<Rightarrow> Some x)"

definition store_member :: "User \<times> go_error option \<Rightarrow> string \<times> json \<Rightarrow> User \<times> go_error option" where
  "store_member ue kv =
     (case (ue, kv) of
        ((u, e), (k, v)) \<Rightarrow>
          if key_is (unquote k) ''id'' then
            (case v of
               JNull \<Rightarrow> (u, e)
             | JNumber n \<Rightarrow>
                 (case Atoi n of Inr i \<Rightarrow> (u\<lparr>ID := i\<rparr>, e) | Inl x \<Rightarrow> (u, save_error e))
             | _ \<Rightarrow> (u, save_error e))
          else if key_is (unquote k) ''name'' then
            (case v of
               JNull \<Rightarrow> (u, e)
             | JString s \<Rightarrow> (u\<lparr>Name := unquote s\<rparr>, e)
             | _ \<Rightarrow> (u, save_error e))
          else (u, e))"

text \<open>
  \<^verbatim>\<open>unmarshal\<close> into the struct: \<^verbatim>\<open>null\<close> changes nothing, an object is stored member by
  member, every other value is an \<^verbatim>\<open>UnmarshalTypeError\<close>.
\<close>

definition unmarshal :: "json \<Rightarrow> User \<Rightarrow> go_error + User" where
  "unmarshal v u =
     (case v of
        JNull \<Rightarrow> Inr u
      | JObject ms \<Rightarrow>
          (case foldl store_member (u, None) ms of
             (u', None) \<Rightarrow> Inr u'
           | (u', Some e) \<Rightarrow> Inl e)
      | _ \<Rightarrow> Inl UnmarshalTypeError)"

text \<open>\<^verbatim>\<open>Decode(&user)\<close> on the zero \<^verbatim>\<open>User\<close> of line 99.\<close>

definition Decode :: "string \<Rightarrow> go_error + User" where
  "Decode b =
     (case readValue b of
        Inl e \<Rightarrow> Inl e
      | Inr (v, rest) \<Rightarrow> unmarshal v zero_User)"

subsection \<open>Requests, response writers and the world the handlers act on\<close>

text \<open>
  The exposition formats that \<^verbatim>\<open>expfmt.Negotiate\<close> chooses from; \<open>FmtOther\<close> stands for
  any other value of \<^verbatim>\<open>expfmt.Format\<close>.
\<close>

datatype format = FmtText | FmtProtoDelim | FmtProtoText | FmtProtoCompact | FmtOther string

text \<open>
  Texts written to a response or to standard output are lists of pieces: a literal string,
  the text \<^verbatim>\<open>err.Error()\<close> of an error, the JSON encoding of a value, the text of an
  exposition format, the metrics of the registry encoded in a format, or the URL of the
  request with another path.
\<close>

datatype piece =
    Str string | ErrStr go_error | Json_User User | Json_Users umap
  | FormatStr format | Metrics_in format | Url_with_path string

type_synonym Header = "string \<rightharpoonup> string"

definition Header_Get :: "Header \<Rightarrow> string \<Rightarrow> string" where
  "Header_Get hs k = (case hs k of None \<Rightarrow> '''' | Some v \<Rightarrow> v)"

record Request =
  Method :: string
  Path :: string
  RHeader :: Header
  Vars :: "string \<rightharpoonup> string"
  Body :: string

text \<open>
  A response writer: the header map, the status code once \<^verbatim>\<open>WriteHeader\<close> has run, and the
  body written so far. Every \<^verbatim>\<open>Header().Set\<close> of this program comes before the status is
  written, so the header map is the header of the response.
\<close>

record ResponseWriter =
  header :: "string \<rightharpoonup> piece list"
  status :: "nat option"
  body :: "piece list"

definition new_ResponseWriter :: ResponseWriter where
  "new_ResponseWriter = \<lparr>header = Map.empty, status = None, body = []\<rparr>"

definition Header_Set :: "ResponseWriter \<Rightarrow> string \<Rightarrow> piece list \<Rightarrow> ResponseWriter" where
  "Header_Set w k v = w\<lparr>header := (header w)(k \<mapsto> v)\<rparr>"

definition Header_Del :: "ResponseWriter \<Rightarrow> string \<Rightarrow> ResponseWriter" where
  "Header_Del w k = w\<lparr>header := (header w)(k := None)\<rparr>"

text \<open>Only the first \<^verbatim>\<open>WriteHeader\<close> counts; a write without one implies status 200.\<close>

definition WriteHeader :: "ResponseWriter \<Rightarrow> nat \<Rightarrow> ResponseWriter" where
  "WriteHeader w code = (if status w = None then w\<lparr>status := Some code\<rparr> else w)"

definition Write :: "ResponseWriter \<Rightarrow> piece list \<Rightarrow> ResponseWriter" where
  "Write w ps = (let w' = WriteHeader w 200 in w'\<lparr>body := body w' @ ps\<rparr>)"

text \<open>\<^verbatim>\<open>http.Error\<close>: plain-text headers, the status, the message and a newline.\<close>

definition http_Error :: "ResponseWriter \<Rightarrow> piece list \<Rightarrow> nat \<Rightarrow> ResponseWriter" where
  "http_Error w msg code =
     (let w1 = Header_Del w ''Content-Length'';
          w2 = Header_Set w1 ''Content-Type'' [Str ''text/plain; charset=utf-8''];
          w3 = Header_Set w2 ''X-Content-Type-Options'' [Str ''nosniff''];
          w4 = WriteHeader w3 code
      in Write w4 (msg @ [Str ''\<newline>'']))"

text \<open>\<^verbatim>\<open>json.NewEncoder(w).Encode(v)\<close>: the encoding of \<open>v\<close> and a newline.\<close>

definition Encode :: "ResponseWriter \<Rightarrow> piece \<Rightarrow> ResponseWriter" where
  "Encode w v = Write w [v, Str ''\<newline>'']"

text \<open>
  The state outside a request: the global \<^verbatim>\<open>repo\<close> and the heap of its map, what has been
  printed to standard output, and the amounts added to the counter of registered users.
\<close>

record world =
  repo :: Repo
  mem :: heap
  stdout :: "piece list list"
  counter_adds :: "int list"

definition Print :: "world \<Rightarrow> piece list \<Rightarrow> world" where
  "Print \<sigma> line = \<sigma>\<lparr>stdout := stdout \<sigma> @ [line]\<rparr>"

type_synonym handler = "ResponseWriter \<Rightarrow> Request \<Rightarrow> world \<Rightarrow> ResponseWriter \<times> world"

subsection \<open>The handlers (lines 73-146)\<close>

definition ListUserHandler :: handler where
  "ListUserHandler w r \<sigma> =
     (case Get (repo \<sigma>) (mem \<sigma>) of
        (us, Some err) \<Rightarrow> (http_Error w [Str ''failed to get users''] 500, \<sigma>)
      | (us, None) \<Rightarrow> (Encode w (Json_Users (deref (mem \<sigma>) us)), \<sigma>))"

definition mux_Var :: "Request \<Rightarrow> string \<Rightarrow> string" where
  "mux_Var r k = (case Vars r k of None \<Rightarrow> '''' | Some v \<Rightarrow> v)"

definition GetUserHandler :: handler where
  "GetUserHandler w r \<sigma> =
     (case Atoi (mux_Var r ''id'') of
        Inl err \<Rightarrow> (http_Error w [ErrStr err] 400, \<sigma>)
      | Inr i \<Rightarrow>
          (case Find (repo \<sigma>) (mem \<sigma>) i of
             (user, ok) \<Rightarrow>
               if \<not> ok then (http_Error w [Str ''User not found''] 404, \<sigma>)
               else (Encode w (Json_User user), \<sigma>)))"

text \<open>
  \<open>meter\<close> is the error result of \<^verbatim>\<open>meter.Int64Counter\<close> (\<open>None\<close> for \<^verbatim>\<open>nil\<close>); the
  instrument it returns is used in either case, and \<^verbatim>\<open>Add\<close> has no result.
\<close>

definition CreateUserHandler :: "go_error option \<Rightarrow> handler" where
  "CreateUserHandler meter w r \<sigma> =
     (case Decode (Body r) of
        Inl err \<Rightarrow> (http_Error w [ErrStr err] 400, \<sigma>)
      | Inr user \<Rightarrow>
          (case Save (repo \<sigma>) (mem \<sigma>) user of
             (user', r', h') \<Rightarrow>
               let \<sigma>1 = \<sigma>\<lparr>repo := r', mem := h'\<rparr>;
                   w1 = Header_Set w ''Content-Type'' [Str ''application/json''];
                   w2 = WriteHeader w1 201;
                   \<sigma>2 = (case meter of
                           Some err \<Rightarrow> Print \<sigma>1 [Str ''error otel: '', ErrStr err]
                         | None \<Rightarrow> \<sigma>1);
                   \<sigma>3 = \<sigma>2\<lparr>counter_adds := counter_adds \<sigma>2 @ [1]\<rparr>
               in (Encode w2 (Json_User user'), \<sigma>3)))"

definition DeleteUserHandler :: handler where
  "DeleteUserHandler w r \<sigma> =
     (case Atoi (mux_Var r ''id'') of
        Inl err \<Rightarrow> (http_Error w [ErrStr err] 400, \<sigma>)
      | Inr i \<Rightarrow> (WriteHeader w 204, \<sigma>\<lparr>mem := Delete (repo \<sigma>) (mem \<sigma>) i\<rparr>))"

definition ContentTypeMiddleware :: "handler \<Rightarrow> handler" where
  "ContentTypeMiddleware next w r \<sigma> =
     (let accept = Header_Get (RHeader r) ''Accept'';
          \<sigma>1 = (if accept \<noteq> ''application/json''
                then Print \<sigma> [Str ''accept header is not application/json'', Str ''\<newline>'']
                else \<sigma>);
          w1 = Header_Set w ''Content-Type'' [Str ''application/json'']
      in next w1 r \<sigma>1)"

subsection \<open>The routes registered in \<^verbatim>\<open>main\<close> (lines 168-174)\<close>

text \<open>
  The router is gorilla/mux. A path template without variables matches exactly that path;
  \<^verbatim>\<open>/users/{id:[0-9]+}\<close> matches the prefix followed by one or more decimal digits, which
  become the variable \<^verbatim>\<open>id\<close>. Routes are tried in the order of registration; a route
  whose path matches but whose method does not makes the lookup end in 405 unless a
  later route matches, and no match at all ends in 404. The middleware of
  \<^verbatim>\<open>router.Use\<close> wraps the handler of a matched route only.
\<close>

datatype target = Metrics | ListUser | GetUser | CreateUser | DeleteUser

datatype pattern = Exact string | Digits string string

type_synonym route = "pattern \<times> string list \<times> target"

fun match_path :: "pattern \<Rightarrow> string \<Rightarrow> (string \<rightharpoonup> string) option" where
  "match_path (Exact p) path = (if path = p then Some Map.empty else None)"
| "match_path (Digits p v) path =
     (let seg = drop (length p) path
      in if take (length p) path = p \<and> seg \<noteq> [] \<and> list_all is_digit seg
         then Some [v \<mapsto> seg] else None)"

datatype mux_match = Matched target "string \<rightharpoonup> string" | MethodNotAllowed | NotFound

fun mux_Match :: "route list \<Rightarrow> Request \<Rightarrow> bool \<Rightarrow> mux_match" where
  "mux_Match [] r mismatch = (if mismatch then MethodNotAllowed else NotFound)"
| "mux_Match ((p, ms, t) # rts) r mismatch =
     (case match_path p (Path r) of
        None \<Rightarrow> mux_Match rts r mismatch
      | Some vars \<Rightarrow>
          if ms = [] \<or> Method r \<in> set ms then Matched t vars
          else mux_Match rts r True)"

definition routes :: "route list" where
  "routes =
     [(Exact ''/metrics'', [], Metrics),
      (Exact ''/users'', [''GET''], ListUser),
      (Digits ''/users/'' ''id'', [''GET''], GetUser),
      (Exact ''/users'', [''POST''], CreateUser),
      (Digits ''/users/'' ''id'', [''DELETE''], DeleteUser)]"

text \<open>
  Before it looks for a route, the router brings the path into canonical form: double
  slashes and the elements \<^verbatim>\<open>.\<close> and \<^verbatim>\<open>..\<close> are removed as \<^verbatim>\<open>path.Clean\<close> does, a
  trailing slash is kept. A request whose path is not in that form is answered with a
  redirect to the cleaned path.
\<close>

fun split_on :: "char \<Rightarrow> string \<Rightarrow> string list" where
  "split_on d [] = [[]]"
| "split_on d (c # cs) =
     (if c = d then [] # split_on d cs
      else (case split_on d cs of [] \<Rightarrow> [[c]] | s # ss \<Rightarrow> (c # s) # ss))"

text \<open>The elements of a rooted path, cleaned; \<open>stack\<close> holds the elements kept so far.\<close>

fun clean_elems :: "string list \<Rightarrow> string list \<Rightarrow> string list" where
  "clean_elems stack [] = rev stack"
| "clean_elems stack (e # es) =
     (if e = [] \<or> e = ''.'' then clean_elems stack es
      else if e = ''..'' then clean_elems (case stack of [] \<Rightarrow> [] | _ # st \<Rightarrow> st) es
      else clean_elems (e # stack) es)"

definition path_Clean :: "string \<Rightarrow> string" where
  "path_Clean p =
     (case clean_elems [] (split_on CHR ''/'' p) of
        [] \<Rightarrow> ''/''
      | es \<Rightarrow> concat (map ((#) CHR ''/'') es))"

definition cleanPath :: "string \<Rightarrow> string" where
  "cleanPath p =
     (if p = [] then ''/''
      else
        let p' = (if hd p \<noteq> CHR ''/'' then CHR ''/'' # p else p);
            np = path_Clean p'
        in if last p' = CHR ''/'' \<and> np \<noteq> ''/'' then np @ ''/'' else np)"

text \<open>
  The handler of \<^verbatim>\<open>/metrics\<close> is \<^verbatim>\<open>promhttp.Handler()\<close>, a collaborator outside this
  repository. The model keeps what bears on the \<^verbatim>\<open>Accept\<close> header: the exposition format
  is negotiated from it by \<^verbatim>\<open>expfmt.Negotiate\<close>, the response header \<^verbatim>\<open>Content-Type\<close> is set
  to that format, and the body is the registry in that format. Gathering is taken to
  succeed; compression and the handler's own bookkeeping are left out.

  The negotiation is written out for a header that is one media range
  \<^verbatim>\<open>type/subtype\<close> followed by parameters \<^verbatim>\<open>name=value\<close>, no name twice and none of them
  \<^verbatim>\<open>q\<close> or \<^verbatim>\<open>escaping\<close>: there no sorting of clauses takes place. On every other header
  the answer of the library is the parameter \<open>many\<close>.
\<close>

definition trim_spaces :: "string \<Rightarrow> string" where
  "trim_spaces s = rev (dropWhile ((=) CHR '' '') (rev (dropWhile ((=) CHR '' '') s)))"

definition parse_param :: "string \<Rightarrow> (string \<times> string) option" where
  "parse_param p =
     (case split_on CHR ''='' p of
        [k, v] \<Rightarrow> Some (trim_spaces k, trim_spaces v)
      | _ \<Rightarrow> None)"

definition parse_range :: "string \<Rightarrow> (string \<times> string \<times> (string \<times> string) list) option" where
  "parse_range h =
     (if CHR '','' \<in> set h then None
      else
        (case split_on CHR '';'' (trim_spaces h) of
           [] \<Rightarrow> None
         | m # ps \<Rightarrow>
             (case split_on CHR ''/'' m of
                [t, s] \<Rightarrow>
                  if list_all (\<lambda>p. parse_param p \<noteq> None) ps
                     \<and> distinct (map fst (List.map_filter parse_param ps))
                     \<and> ''q'' \<notin> set (map fst (List.map_filter parse_param ps))
                     \<and> ''escaping'' \<notin> set (map fst (List.map_filter parse_param ps))
                  then Some (trim_spaces t, trim_spaces s, List.map_filter parse_param ps)
                  else None
              | _ \<Rightarrow> None)))"

definition Negotiate :: "(string \<Rightarrow> format) \<Rightarrow> string \<Rightarrow> format" where
  "Negotiate many h =
     (case parse_range h of
        None \<Rightarrow> many h
      | Some (t, s, ps) \<Rightarrow>
          if t = ''application'' \<and> s = ''vnd.google.protobuf''
             \<and> map_of ps ''proto'' = Some ''io.prometheus.client.MetricFamily''
          then
            (if map_of ps ''encoding'' = Some ''delimited'' then FmtProtoDelim
             else if map_of ps ''encoding'' = Some ''text'' then FmtProtoText
             else if map_of ps ''encoding'' = Some ''compact-text'' then FmtProtoCompact
             else FmtText)
          else FmtText)"

definition promhttp_Handler :: "(string \<Rightarrow> format) \<Rightarrow> handler" where
  "promhttp_Handler many w r \<sigma> =
     (let f = Negotiate many (Header_Get (RHeader r) ''Accept'');
          w1 = Header_Set w ''Content-Type'' [FormatStr f]
      in (Write w1 [Metrics_in f], \<sigma>))"

definition handler_of :: "(string \<Rightarrow> format) \<Rightarrow> go_error option \<Rightarrow> target \<Rightarrow> handler" where
  "handler_of many meter t =
     (case t of
        Metrics \<Rightarrow> promhttp_Handler many
      | ListUser \<Rightarrow> ListUserHandler
      | GetUser \<Rightarrow> GetUserHandler
      | CreateUser \<Rightarrow> CreateUserHandler meter
      | DeleteUser \<Rightarrow> DeleteUserHandler)"

text \<open>
  \<^verbatim>\<open>Router.ServeHTTP\<close>: the redirect for a path that is not clean, then the lookup, then
  the middleware around the handler of the matched route.
\<close>

definition ServeHTTP ::
  "(string \<Rightarrow> format) \<Rightarrow> go_error option \<Rightarrow> Request \<Rightarrow> world \<Rightarrow> ResponseWriter \<times> world" where
  "ServeHTTP many meter r \<sigma> =
     (if cleanPath (Path r) \<noteq> Path r
      then (WriteHeader
              (Header_Set new_ResponseWriter ''Location'' [Url_with_path (cleanPath (Path r))])
              301, \<sigma>)
      else
        (case mux_Match routes r False of
           Matched t vars \<Rightarrow>
             ContentTypeMiddleware (handler_of many meter t)
               new_ResponseWriter (r\<lparr>Vars := vars\<rparr>) \<sigma>
         | MethodNotAllowed \<Rightarrow> (WriteHeader new_ResponseWriter 405, \<sigma>)
         | NotFound \<Rightarrow> (http_Error new_ResponseWriter [Str ''404 page not found''] 404, \<sigma>)))"

text \<open>The status the client receives: 200 when the handler never wrote one.\<close>

definition response_status :: "ResponseWriter \<Rightarrow> nat" where
  "response_status w = (case status w of None \<Rightarrow> 200 | Some c \<Rightarrow> c)"

definition GET :: "string \<Rightarrow> Request" where
  "GET p = \<lparr>Method = ''GET'', Path = p, RHeader = Map.empty, Vars = Map.empty, Body = ''''\<rparr>"

definition new_world :: world where
  "new_world =
     (let (r, h) = NewRepo empty_heap in \<lparr>repo = r, mem = h, stdout = [], counter_adds = []\<rparr>)"

subsection \<open>Start and shutdown in \<^verbatim>\<open>main\<close> (lines 176-202)\<close>

text \<open>
  An \<^verbatim>\<open>http.Server\<close> value with the fields that \<^verbatim>\<open>main\<close> sets, whether it holds an open
  listener, and the number of its connections that are serving a request. Durations are
  nanoseconds; a timeout of 0 is no timeout.
\<close>

record Server =
  Addr :: string
  ReadTimeout :: int
  WriteTimeout :: int
  listening :: bool
  inflight :: nat

definition Second :: int where
  "Second = 1000000000"

datatype phase = Running | ShuttingDown | Exited

text \<open>
  The process: the servers allocated so far (the position in the list is the address),
  how far \<^verbatim>\<open>main\<close> has come, and the requests that were in flight when it returned.
\<close>

record process =
  servers :: "Server list"
  phase :: phase
  cut_off :: nat

text \<open>The composite literal \<^verbatim>\<open>srv\<close> of lines 176-182; it is the first server allocated.\<close>

definition main_srv :: Server where
  "main_srv =
     \<lparr>Addr = '':8080'', ReadTimeout = Second, WriteTimeout = 10 * Second,
      listening = False, inflight = 0\<rparr>"

text \<open>
  The package function \<^verbatim>\<open>http.ListenAndServe(addr, handler)\<close> builds a server of its own,
  \<^verbatim>\<open>&Server{Addr: addr, Handler: handler}\<close>, and listens with it; \<open>bind_ok\<close> says whether
  the port could be bound.
\<close>

definition http_ListenAndServe :: "string \<Rightarrow> bool \<Rightarrow> process \<Rightarrow> process" where
  "http_ListenAndServe addr bind_ok p =
     p\<lparr>servers := servers p @
        [\<lparr>Addr = addr, ReadTimeout = 0, WriteTimeout = 0, listening = bind_ok, inflight = 0\<rparr>]\<rparr>"

text \<open>When \<^verbatim>\<open>main\<close> returns the process ends, with whatever is still in flight.\<close>

definition exit_main :: "process \<Rightarrow> process" where
  "exit_main p = p\<lparr>phase := Exited, cut_off := sum_list (map inflight (servers p))\<rparr>"

definition main_start :: "string \<Rightarrow> bool \<Rightarrow> process" where
  "main_start PORT bind_ok =
     (let port = (if PORT = '''' then ''8080'' else PORT);
          p0 = \<lparr>servers = [main_srv], phase = Running, cut_off = 0\<rparr>;
          p1 = http_ListenAndServe ('':'' @ port) bind_ok p0
      in if bind_ok then p1 else exit_main p1)"

text \<open>A request arrives at the port: the server that holds the listener takes it.\<close>

fun accept :: "Server list \<Rightarrow> Server list" where
  "accept [] = []"
| "accept (s # ss) =
     (if listening s then s\<lparr>inflight := Suc (inflight s)\<rparr> # ss else s # accept ss)"

text \<open>A request in flight completes.\<close>

fun complete :: "Server list \<Rightarrow> Server list" where
  "complete [] = []"
| "complete (s # ss) =
     (if 0 < inflight s then s\<lparr>inflight := inflight s - 1\<rparr> # ss else s # complete ss)"

text \<open>
  \<^verbatim>\<open>srv.Shutdown(context.Background())\<close> closes the listeners of \<^verbatim>\<open>srv\<close> and returns once
  \<^verbatim>\<open>srv\<close> has no connection serving a request; the context has no deadline. Then
  \<^verbatim>\<open>main\<close> returns.
\<close>

definition Shutdown_begin :: "process \<Rightarrow> process" where
  "Shutdown_begin p =
     (case servers p of
        [] \<Rightarrow> p
      | srv # rest \<Rightarrow> p\<lparr>servers := srv\<lparr>listening := False\<rparr> # rest, phase := ShuttingDown\<rparr>)"

definition Shutdown_wait :: "process \<Rightarrow> process" where
  "Shutdown_wait p =
     (case servers p of
        [] \<Rightarrow> p
      | srv # rest \<Rightarrow> if inflight srv = 0 then exit_main p else p)"

datatype event = Arrive | Complete | Interrupt

fun step :: "process \<Rightarrow> event \<Rightarrow> process" where
  "step p e =
     (case phase p of
        Exited \<Rightarrow> p
      | Running \<Rightarrow>
          (case e of
             Arrive \<Rightarrow> p\<lparr>servers := accept (servers p)\<rparr>
           | Complete \<Rightarrow> p\<lparr>servers := complete (servers p)\<rparr>
           | Interrupt \<Rightarrow> Shutdown_wait (Shutdown_begin p))
      | ShuttingDown \<Rightarrow>
          (case e of
             Arrive \<Rightarrow> p\<lparr>servers := accept (servers p)\<rparr>
           | Complete \<Rightarrow> Shutdown_wait (p\<lparr>servers := complete (servers p)\<rparr>)
           | Interrupt \<Rightarrow> p))"

definition run :: "process \<Rightarrow> event list \<Rightarrow> process" where
  "run p es = foldl step p es"

subsection \<open>What a client can observe, and sample inputs\<close>

text \<open>For the examples, the formats of headers that are not written out stay symbolic.\<close>

definition other_formats :: "string \<Rightarrow> format" where
  "other_formats h = FmtOther h"

text \<open>
  The result of a request without standard output: the response, the repository and the
  counter.
\<close>

definition observable :: "ResponseWriter \<times> world \<Rightarrow> ResponseWriter \<times> Repo \<times> heap \<times> int list" where
  "observable res = (fst res, repo (snd res), mem (snd res), counter_adds (snd res))"

definition POST :: "string \<Rightarrow> string \<Rightarrow> Request" where
  "POST p b = \<lparr>Method = ''POST'', Path = p, RHeader = Map.empty, Vars = Map.empty, Body = b\<rparr>"

text \<open>The world after one user named Ada has been saved.\<close>

definition ada_world :: world where
  "ada_world =
     (case Save (repo new_world) (mem new_world) \<lparr>ID = 0, Name = ''Ada''\<rparr> of
        (u, r, h) \<Rightarrow> new_world\<lparr>repo := r, mem := h\<rparr>)"

text \<open>
  The server that \<^verbatim>\<open>http.ListenAndServe\<close> allocates once the port is bound, with \<open>k\<close>
  requests in flight.
\<close>

definition listener :: "string \<Rightarrow> nat \<Rightarrow> Server" where
  "listener PORT k =
     \<lparr>Addr = '':'' @ (if PORT = '''' then ''8080'' else PORT), ReadTimeout = 0, WriteTimeout = 0,
      listening = True, inflight = k\<rparr>"

section \<open>The repository\<close>

lemma Save_ignores_ID: "Save r h (u\<lparr>ID := x\<rparr>) = Save r h u"
  by (simp add: Save_def)

lemma save_all_ignores_ID:
  "save_all r h (map (\<lambda>u. u\<lparr>ID := f u\<rparr>) us) = save_all r h us"
  by (induction us arbitrary: r h) (simp_all add: Save_ignores_ID)

text \<open>From any counter value, the ids handed out are the next ones in order.\<close>

lemma save_all_ids_from:
  "map ID (fst (save_all r h us)) = [nextID r .. nextID r + int (length us) - 1]"
proof (induction us arbitrary: r h)
  case Nil
  show ?case by simp
next
  case (Cons u us)
  obtain u' r' h' where s: "Save r h u = (u', r', h')"
    by (cases "Save r h u") auto
  then have n: "nextID r' = nextID r + 1" and i: "ID u' = nextID r"
    by (auto simp: Save_def Let_def)
  obtain rs r'' h'' where t: "save_all r' h' us = (rs, r'', h'')"
    by (cases "save_all r' h' us") auto
  from Cons.IH [of r' h'] t n
  have m: "map ID rs = [nextID r + 1 .. nextID r + int (length us)]"
    by simp
  have "[nextID r .. nextID r + int (length us)] =
        nextID r # [nextID r + 1 .. nextID r + int (length us)]"
    by (rule upto_rec1) simp
  with s t i m show ?case
    by simp
qed

lemma NewRepo_nextID: "nextID (fst (NewRepo h)) = 1"
  by (simp add: NewRepo_def make_map_def Let_def)

text \<open>
  Claim C1. On a repository fresh from \<^verbatim>\<open>NewRepo\<close>, the users returned by any sequence
  of \<^verbatim>\<open>Save\<close> calls carry the ids 1, 2, 3, ... in call order, so they are strictly
  increasing and distinct; and the ids the caller put into the input users do not matter:
  replacing them by anything else gives the same returned users.
\<close>

theorem save_ids_count_from_one:
  "map ID (fst (save_all (fst (NewRepo h)) (snd (NewRepo h)) us)) = [1 .. int (length us)]
   \<and> sorted_wrt (<) (map ID (fst (save_all (fst (NewRepo h)) (snd (NewRepo h)) us)))
   \<and> distinct (map ID (fst (save_all (fst (NewRepo h)) (snd (NewRepo h)) us)))
   \<and> fst (save_all (fst (NewRepo h)) (snd (NewRepo h)) (map (\<lambda>u. u\<lparr>ID := f u\<rparr>) us))
       = fst (save_all (fst (NewRepo h)) (snd (NewRepo h)) us)"
proof -
  have ids: "map ID (fst (save_all (fst (NewRepo h)) (snd (NewRepo h)) us))
             = [1 .. int (length us)]"
    by (simp add: save_all_ids_from NewRepo_nextID)
  show ?thesis
    unfolding ids by (simp add: save_all_ignores_ID)
qed

lemma Delete_absent: "maps h (users r) i = None \<Longrightarrow> Delete r h i = h"
proof -
  assume "maps h (users r) i = None"
  then have "(maps h (users r))(i := None) = maps h (users r)"
    by (simp add: fun_upd_idem)
  then show ?thesis
    by (simp add: Delete_def)
qed

text \<open>
  Claim C7. \<^verbatim>\<open>Find(id)\<close> right after \<^verbatim>\<open>Delete(id)\<close> reports not found, in every state; and
  when \<^verbatim>\<open>id\<close> is absent, \<^verbatim>\<open>Delete(id)\<close> leaves the state as it was, so that \<^verbatim>\<open>Get\<close> shows
  the same mapping before and after.
\<close>

theorem delete_then_find:
  "Find r (Delete r h i) i = (zero_User, False)
   \<and> (snd (Find r h i) = False \<longrightarrow>
        Delete r h i = h
        \<and> deref (Delete r h i) (fst (Get r (Delete r h i))) = deref h (fst (Get r h)))"
proof -
  have a: "Find r (Delete r h i) i = (zero_User, False)"
    by (simp add: Delete_def Find_def)
  have b: "Delete r h i = h" if "snd (Find r h i) = False"
  proof -
    from that have "maps h (users r) i = None"
      by (simp add: Find_def split: option.splits)
    then show ?thesis by (rule Delete_absent)
  qed
  from a b show ?thesis by (simp add: Get_def)
qed

theorem delete_then_find_witness:
  "snd (Find (fst (NewRepo empty_heap)) (snd (NewRepo empty_heap)) 5) = False
   \<and> Find (fst (NewRepo empty_heap))
        (Delete (fst (NewRepo empty_heap)) (snd (NewRepo empty_heap)) 5) 5
       = (zero_User, False)
   \<and> Delete (fst (NewRepo empty_heap)) (snd (NewRepo empty_heap)) 5 = snd (NewRepo empty_heap)"
proof -
  have h: "snd (Find (fst (NewRepo empty_heap)) (snd (NewRepo empty_heap)) 5) = False"
    by (simp add: Find_def NewRepo_def make_map_def empty_heap_def)
  with delete_then_find [of "fst (NewRepo empty_heap)" "snd (NewRepo empty_heap)" 5]
  show ?thesis by blast
qed

text \<open>
  Claim C10. The user that \<^verbatim>\<open>Save\<close> returns is found under its id in the state that
  \<^verbatim>\<open>Save\<close> leaves, and it is the input user with only the id replaced by the counter.
\<close>

theorem save_then_find:
  "(case Save r h u of (u', r', h') \<Rightarrow>
      Find r' h' (ID u') = (u', True) \<and> Name u' = Name u \<and> u' = u\<lparr>ID := nextID r\<rparr>)"
  by (simp add: Save_def Find_def Let_def)

text \<open>\<^verbatim>\<open>Get\<close> has no failing path: its error is always \<^verbatim>\<open>nil\<close>.\<close>

lemma Get_never_fails: "snd (Get r h) = None"
  by (simp add: Get_def)

text \<open>
  Claim C3. \<^verbatim>\<open>Get\<close> is claimed to return a snapshot; it returns the address of the
  repository's own map. On a fresh repository, the map obtained from \<^verbatim>\<open>Get\<close> has no
  entry for id 1; after a later \<^verbatim>\<open>Save\<close> the same value shows the saved user.
\<close>

theorem Get_returns_live_map:
  "(case NewRepo empty_heap of (r0, h0) \<Rightarrow>
     (case Get r0 h0 of (m, err) \<Rightarrow>
       (case Save r0 h0 \<lparr>ID = 0, Name = ''a''\<rparr> of (u, r1, h1) \<Rightarrow>
          err = None \<and> deref h0 m 1 = None
          \<and> deref h1 m 1 = Some \<lparr>ID = 1, Name = ''a''\<rparr>)))"
  by (simp add: NewRepo_def make_map_def empty_heap_def Get_def Save_def deref_def Let_def)

section \<open>The handlers behind the router\<close>

lemma parse_digits_no_syntax_error:
  "list_all is_digit cs \<Longrightarrow> parse_digits n cs \<noteq> Inl ErrSyntax"
  by (induction cs arbitrary: n) auto

lemma is_digit_no_sign: "is_digit c \<Longrightarrow> c \<noteq> CHR ''-'' \<and> c \<noteq> CHR ''+''"
  by (auto simp: is_digit_def)

lemma Atoi_digits:
  assumes "seg \<noteq> []" and "list_all is_digit seg"
  shows "Atoi seg =
           (case parse_digits 0 seg of
              Inl e \<Rightarrow> Inl (NumError ''Atoi'' seg ErrRange)
            | Inr un \<Rightarrow> if 2 ^ 63 \<le> un then Inl (NumError ''Atoi'' seg ErrRange) else Inr un)"
proof -
  from assms have c: "is_digit (hd seg)"
    by (cases seg) auto
  then have sign: "hd seg \<noteq> CHR ''-''" "hd seg \<noteq> CHR ''+''"
    using is_digit_no_sign by auto
  have "parse_digits 0 seg \<noteq> Inl ErrSyntax"
    using assms(2) by (rule parse_digits_no_syntax_error)
  then have e: "parse_digits 0 seg = Inl e \<Longrightarrow> e = ErrRange" for e
    by (cases e) auto
  show ?thesis
    using sign e assms(1) unfolding Atoi_def
    by (auto simp: Let_def split: sum.splits)
qed

lemma Atoi_digits_error:
  "seg \<noteq> [] \<Longrightarrow> list_all is_digit seg \<Longrightarrow> Atoi seg = Inl e \<Longrightarrow> e = NumError ''Atoi'' seg ErrRange"
  by (auto simp: Atoi_digits split: sum.splits if_splits)

lemma match_get_digits:
  assumes "Method r = ''GET''" and "Path r = ''/users/'' @ seg"
    and "seg \<noteq> []" and "list_all is_digit seg"
  shows "mux_Match routes r False = Matched GetUser [''id'' \<mapsto> seg]"
  using assms by (simp add: routes_def)

lemma match_get_other:
  assumes "Method r = ''GET''" and "Path r = ''/users/'' @ seg"
    and "\<not> (seg \<noteq> [] \<and> list_all is_digit seg)"
  shows "mux_Match routes r False = NotFound"
  using assms by (auto simp add: routes_def)

lemma match_post_users:
  assumes "Method r = ''POST''" and "Path r = ''/users''"
  shows "mux_Match routes r False = Matched CreateUser Map.empty"
  using assms by (simp add: routes_def)

lemma status_http_Error:
  "status w = None \<Longrightarrow> response_status (http_Error w msg code) = code"
  by (simp add: http_Error_def Write_def WriteHeader_def Header_Set_def Header_Del_def
      response_status_def Let_def)

lemma status_WriteHeader: "status w = None \<Longrightarrow> response_status (WriteHeader w code) = code"
  by (simp add: WriteHeader_def response_status_def)

lemma body_http_Error: "body (http_Error w msg code) = body w @ msg @ [Str ''\<newline>'']"
  by (simp add: http_Error_def Write_def WriteHeader_def Header_Set_def Header_Del_def Let_def)

lemma status_Encode: "status w = None \<Longrightarrow> response_status (Encode w v) = 200"
  by (simp add: Encode_def Write_def WriteHeader_def response_status_def Let_def)

lemma body_Encode: "body (Encode w v) = body w @ [v, Str ''\<newline>'']"
  by (simp add: Encode_def Write_def WriteHeader_def Let_def)

lemma header_Encode: "header (Encode w v) = header w"
  by (simp add: Encode_def Write_def WriteHeader_def Let_def)

lemma split_on_no_sep: "d \<notin> set s \<Longrightarrow> split_on d s = [s]"
  by (induction s) auto

lemma digits_no_slash: "list_all is_digit seg \<Longrightarrow> CHR ''/'' \<notin> set seg"
  by (auto simp: list_all_iff is_digit_def)

lemma split_users_seg:
  "CHR ''/'' \<notin> set seg \<Longrightarrow> split_on CHR ''/'' (''/users/'' @ seg) = [[], ''users'', seg]"
  by (simp add: split_on_no_sep)

lemma cleanPath_users_digits:
  assumes "seg \<noteq> []" and "list_all is_digit seg"
  shows "cleanPath (''/users/'' @ seg) = ''/users/'' @ seg"
proof -
  from assms(2) have ns: "CHR ''/'' \<notin> set seg"
    by (rule digits_no_slash)
  from assms obtain c cs where seg: "seg = c # cs" and c: "is_digit c"
    by (cases seg) auto
  from c have "c \<noteq> CHR ''.''"
    by (auto simp: is_digit_def)
  with seg have nd: "seg \<noteq> ''.''" "seg \<noteq> ''..''"
    by auto
  from assms(1) ns have l: "last seg \<noteq> CHR ''/''"
    using last_in_set by metis
  have "path_Clean (''/users/'' @ seg) = ''/users/'' @ seg"
    unfolding path_Clean_def split_users_seg [OF ns] using assms(1) nd by simp
  with assms(1) l show ?thesis
    by (simp add: cleanPath_def Let_def)
qed

lemma cleanPath_users: "cleanPath ''/users'' = ''/users''"
  by (simp add: cleanPath_def path_Clean_def Let_def)

lemma new_world_simps:
  "repo new_world = \<lparr>users = 0, nextID = 1\<rparr>"
  "maps (mem new_world) = (\<lambda>_. Map.empty)"
  by (simp_all add: new_world_def NewRepo_def make_map_def empty_heap_def fun_eq_iff)

lemma ada_world_simps:
  "repo ada_world = \<lparr>users = 0, nextID = 2\<rparr>"
  "maps (mem ada_world) 0 = [1 \<mapsto> \<lparr>ID = 1, Name = ''Ada''\<rparr>]"
  by (simp_all add: ada_world_def Save_def new_world_simps Let_def)

lemma ServeHTTP_get_digits:
  assumes "Method r = ''GET''" and "Path r = ''/users/'' @ seg"
    and "seg \<noteq> []" and "list_all is_digit seg"
  shows "ServeHTTP many meter r \<sigma> =
           ContentTypeMiddleware GetUserHandler new_ResponseWriter (r\<lparr>Vars := [''id'' \<mapsto> seg]\<rparr>) \<sigma>"
proof -
  have "cleanPath (Path r) = Path r"
    unfolding assms(2) using assms(3,4) by (rule cleanPath_users_digits)
  moreover from assms have "mux_Match routes r False = Matched GetUser [''id'' \<mapsto> seg]"
    by (rule match_get_digits)
  ultimately show ?thesis
    by (simp add: ServeHTTP_def handler_of_def)
qed

lemma ServeHTTP_get_other:
  assumes "Method r = ''GET''" and "Path r = ''/users/'' @ seg"
    and "\<not> (seg \<noteq> [] \<and> list_all is_digit seg)"
  shows "ServeHTTP many meter r \<sigma> =
           (if cleanPath (Path r) = Path r
            then http_Error new_ResponseWriter [Str ''404 page not found''] 404
            else WriteHeader
                   (Header_Set new_ResponseWriter ''Location'' [Url_with_path (cleanPath (Path r))])
                   301,
            \<sigma>)"
proof -
  from assms have "mux_Match routes r False = NotFound"
    by (rule match_get_other)
  then show ?thesis
    by (simp add: ServeHTTP_def)
qed

lemma ServeHTTP_post_users:
  assumes "Method r = ''POST''" and "Path r = ''/users''"
  shows "ServeHTTP many meter r \<sigma> =
           ContentTypeMiddleware (CreateUserHandler meter) new_ResponseWriter
             (r\<lparr>Vars := Map.empty\<rparr>) \<sigma>"
proof -
  from assms have "mux_Match routes r False = Matched CreateUser Map.empty"
    by (rule match_post_users)
  with assms(2) show ?thesis
    by (simp add: ServeHTTP_def handler_of_def cleanPath_users)
qed

text \<open>
  Claim C4, as amended. A GET request for \<^verbatim>\<open>/users/{id}\<close> reaches the handler only when
  the id segment is one or more decimal digits. Then: digits that do not fit \<^verbatim>\<open>int\<close> give
  400 with the range error of \<^verbatim>\<open>strconv.Atoi\<close> as the body; an id that parses and is not
  stored gives 404 with the message \<^verbatim>\<open>User not found\<close>; a stored id gives 200 with that
  user as JSON. Any other segment is not handed to the handler and so is not answered with
  its 400: the router answers by itself, with 404, or with the redirect 301 when the path
  is not in canonical form, and nothing else happens.
\<close>

theorem get_user_by_route:
  assumes "Method r = ''GET''" and "Path r = ''/users/'' @ seg"
  shows "(seg \<noteq> [] \<and> list_all is_digit seg \<longrightarrow>
            (case Atoi seg of
               Inl e \<Rightarrow>
                 e = NumError ''Atoi'' seg ErrRange
                 \<and> response_status (fst (ServeHTTP many meter r \<sigma>)) = 400
                 \<and> body (fst (ServeHTTP many meter r \<sigma>)) = [ErrStr e, Str ''\<newline>'']
             | Inr i \<Rightarrow>
                 (case Find (repo \<sigma>) (mem \<sigma>) i of
                    (u, ok) \<Rightarrow>
                      if ok
                      then response_status (fst (ServeHTTP many meter r \<sigma>)) = 200
                        \<and> body (fst (ServeHTTP many meter r \<sigma>)) = [Json_User u, Str ''\<newline>'']
                        \<and> header (fst (ServeHTTP many meter r \<sigma>)) ''Content-Type''
                            = Some [Str ''application/json'']
                      else response_status (fst (ServeHTTP many meter r \<sigma>)) = 404
                        \<and> body (fst (ServeHTTP many meter r \<sigma>))
                            = [Str ''User not found'', Str ''\<newline>''])))
         \<and> (\<not> (seg \<noteq> [] \<and> list_all is_digit seg) \<longrightarrow>
              snd (ServeHTTP many meter r \<sigma>) = \<sigma>
              \<and> response_status (fst (ServeHTTP many meter r \<sigma>))
                  = (if cleanPath (Path r) = Path r then 404 else 301))"
proof (cases "seg \<noteq> [] \<and> list_all is_digit seg")
  case False
  with assms have "ServeHTTP many meter r \<sigma> =
           (if cleanPath (Path r) = Path r
            then http_Error new_ResponseWriter [Str ''404 page not found''] 404
            else WriteHeader
                   (Header_Set new_ResponseWriter ''Location'' [Url_with_path (cleanPath (Path r))])
                   301,
            \<sigma>)"
    by (rule ServeHTTP_get_other)
  then have "snd (ServeHTTP many meter r \<sigma>) = \<sigma>
      \<and> response_status (fst (ServeHTTP many meter r \<sigma>))
          = (if cleanPath (Path r) = Path r then 404 else 301)"
    by (simp add: status_http_Error status_WriteHeader new_ResponseWriter_def Header_Set_def)
  with False show ?thesis
    by blast
next
  case True
  define w1 where "w1 = Header_Set new_ResponseWriter ''Content-Type'' [Str ''application/json'']"
  have w1: "status w1 = None" "body w1 = []"
    "header w1 ''Content-Type'' = Some [Str ''application/json'']"
    by (simp_all add: w1_def Header_Set_def new_ResponseWriter_def)
  from assms True have "ServeHTTP many meter r \<sigma> =
      ContentTypeMiddleware GetUserHandler new_ResponseWriter (r\<lparr>Vars := [''id'' \<mapsto> seg]\<rparr>) \<sigma>"
    by (simp add: ServeHTTP_get_digits)
  then have s: "fst (ServeHTTP many meter r \<sigma>) =
           (case Atoi seg of
              Inl err \<Rightarrow> http_Error w1 [ErrStr err] 400
            | Inr i \<Rightarrow>
                (case Find (repo \<sigma>) (mem \<sigma>) i of
                   (user, ok) \<Rightarrow>
                     if \<not> ok then http_Error w1 [Str ''User not found''] 404
                     else Encode w1 (Json_User user)))"
    by (simp add: ContentTypeMiddleware_def GetUserHandler_def
        mux_Var_def Print_def Find_def w1_def Let_def split: sum.splits option.splits)
  from True have e: "Atoi seg = Inl e \<Longrightarrow> e = NumError ''Atoi'' seg ErrRange" for e
    by (simp add: Atoi_digits_error)
  show ?thesis
    using True e
    by (auto simp: s w1 status_http_Error body_http_Error status_Encode body_Encode header_Encode
        split: sum.splits prod.splits)
qed

text \<open>
  The theorem at the requests of the specification: \<^verbatim>\<open>/users/1\<close> after Ada was saved,
  \<^verbatim>\<open>/users/999999\<close>, digits beyond the range of \<^verbatim>\<open>int\<close>, \<^verbatim>\<open>/users/abc\<close>, and the path
  \<^verbatim>\<open>/users//1\<close>, which is not in canonical form.
\<close>

theorem get_user_by_route_witness:
  "response_status (fst (ServeHTTP other_formats None (GET ''/users/1'') ada_world)) = 200
   \<and> body (fst (ServeHTTP other_formats None (GET ''/users/1'') ada_world))
       = [Json_User \<lparr>ID = 1, Name = ''Ada''\<rparr>, Str ''\<newline>'']
   \<and> response_status (fst (ServeHTTP other_formats None (GET ''/users/999999'') ada_world)) = 404
   \<and> response_status (fst (ServeHTTP other_formats None
         (GET ''/users/99999999999999999999'') ada_world)) = 400
   \<and> response_status (fst (ServeHTTP other_formats None (GET ''/users/abc'') ada_world)) = 404
   \<and> response_status (fst (ServeHTTP other_formats None (GET ''/users//1'') ada_world)) = 301"
proof -
  have m: "Method (GET p) = ''GET''" for p
    by (simp add: GET_def)
  have a: "Atoi ''1'' = Inr 1" "Atoi ''999999'' = Inr 999999"
    "Atoi ''99999999999999999999'' = Inl (NumError ''Atoi'' ''99999999999999999999'' ErrRange)"
    by (simp_all add: Atoi_def is_digit_def digit_val_def)
  have f: "Find (repo ada_world) (mem ada_world) 1 = (\<lparr>ID = 1, Name = ''Ada''\<rparr>, True)"
    "Find (repo ada_world) (mem ada_world) 999999 = (zero_User, False)"
    by (simp_all add: Find_def ada_world_simps)
  have p: "Path (GET (''/users/'' @ seg)) = ''/users/'' @ seg" for seg
    by (simp add: GET_def)
  have c: "cleanPath ''/users/abc'' = ''/users/abc''" "cleanPath ''/users//1'' = ''/users/1''"
    by (simp_all add: cleanPath_def path_Clean_def Let_def)
  note t = get_user_by_route [OF m p, of _ other_formats None ada_world]
  from t [of "''1''"] t [of "''999999''"] t [of "''99999999999999999999''"] t [of "''abc''"]
    t [of "''/1''"]
  show ?thesis
    by (simp add: a f c is_digit_def GET_def)
qed

text \<open>
  Claim C4 as stated has \<^verbatim>\<open>GET /users/abc\<close> answered with 400. The route pattern
  \<^verbatim>\<open>{id:[0-9]+}\<close> does not match \<^verbatim>\<open>abc\<close>, so the answer is the router's 404.
\<close>

theorem get_users_abc_not_400:
  "response_status (fst (ServeHTTP other_formats None (GET ''/users/abc'') new_world)) = 404
   \<and> response_status (fst (ServeHTTP other_formats None (GET ''/users/abc'') new_world)) \<noteq> 400
   \<and> mux_Match routes (GET ''/users/abc'') False = NotFound"
  by (simp add: ServeHTTP_def routes_def GET_def is_digit_def status_http_Error
      new_ResponseWriter_def cleanPath_def path_Clean_def Let_def)

text \<open>
  Also at the handler itself a segment that is no non-negative integer need not give 400:
  \<^verbatim>\<open>strconv.Atoi\<close> reads a sign, so \<^verbatim>\<open>-5\<close> parses and ends in 404.
\<close>

lemma GetUserHandler_negative_id:
  "response_status (fst (GetUserHandler new_ResponseWriter
      ((GET ''/users/-5'')\<lparr>Vars := [''id'' \<mapsto> ''-5'']\<rparr>) new_world)) = 404"
proof -
  have a: "Atoi ''-5'' = Inr (- 5)"
    by (simp add: Atoi_def is_digit_def digit_val_def)
  show ?thesis
    by (simp add: GetUserHandler_def mux_Var_def GET_def a Find_def new_world_simps
        status_http_Error new_ResponseWriter_def)
qed

lemma Decode_Ada_garbage:
  \<open>Decode ''{"name":"Ada"}x'' = Inr \<lparr>ID = 0, Name = ''Ada''\<rparr>\<close>
  by (simp add: Decode_def readValue_def scan_step_def step_BeginValue_def step_BeginString_def
      step_EndValue_def push_def maxNestingDepth_def isSpace_def is_digit_def unmarshal_def
      store_member_def key_is_def to_lower_def in_range_def zero_User_def)

lemma Decode_Ada:
  \<open>Decode ''{"name":"Ada"}'' = Inr \<lparr>ID = 0, Name = ''Ada''\<rparr>\<close>
  by (simp add: Decode_def readValue_def scan_step_def step_BeginValue_def step_BeginString_def
      step_EndValue_def push_def maxNestingDepth_def isSpace_def is_digit_def unmarshal_def
      store_member_def key_is_def to_lower_def in_range_def zero_User_def)

lemma Decode_array: "Decode ''[]'' = Inl UnmarshalTypeError"
  by (simp add: Decode_def readValue_def scan_step_def step_BeginValue_def step_BeginString_def
      step_EndValue_def push_def maxNestingDepth_def isSpace_def is_digit_def unmarshal_def)

lemma Decode_not_json: "Decode ''not json'' = Inl SyntaxError"
  by (simp add: Decode_def readValue_def scan_step_def step_BeginValue_def step_BeginString_def
      step_EndValue_def push_def maxNestingDepth_def isSpace_def is_digit_def unmarshal_def)

lemma Valid_samples:
  \<open>\<not> json_Valid ''{"name":"Ada"}x''\<close> "json_Valid ''[]''"
  by (simp_all add: json_Valid_def readValue_def scan_step_def step_BeginValue_def
      step_BeginString_def step_EndValue_def push_def maxNestingDepth_def isSpace_def is_digit_def)

text \<open>What the handler does with the verdict of the decoder, whatever the writer.\<close>

lemma CreateUserHandler_response:
  assumes "status w = None" and "body w = []"
  shows "(case Decode (Body r) of
            Inl err \<Rightarrow>
              response_status (fst (CreateUserHandler meter w r \<sigma>)) = 400
              \<and> body (fst (CreateUserHandler meter w r \<sigma>)) = [ErrStr err, Str ''\<newline>'']
          | Inr user \<Rightarrow>
              response_status (fst (CreateUserHandler meter w r \<sigma>)) = 201
              \<and> body (fst (CreateUserHandler meter w r \<sigma>))
                  = [Json_User (user\<lparr>ID := nextID (repo \<sigma>)\<rparr>), Str ''\<newline>''])"
  using assms
  by (simp add: CreateUserHandler_def Save_def http_Error_def Encode_def Write_def
      WriteHeader_def Header_Set_def Header_Del_def response_status_def
      Let_def split: sum.splits option.splits)

text \<open>
  Claim C5, as amended. A POST request for \<^verbatim>\<open>/users\<close> whose body the decoder rejects
  (its first JSON value is malformed or cut short, or does not fit \<^verbatim>\<open>User\<close>) is answered
  with 400 and the decoder's error, and the repository stays as it was. A body whose first
  JSON value decodes into a \<^verbatim>\<open>User\<close>, whatever follows that value, is answered with 201,
  content type \<^verbatim>\<open>application/json\<close>, and the stored user (the decoded one with the id of
  the counter) as the body. The error result of the meter changes nothing but one line on
  standard output: the response, the repository and the counter additions are those of a
  run where the meter reports no error.
\<close>

theorem create_user_response:
  assumes "Method r = ''POST''" and "Path r = ''/users''"
  shows "(case Decode (Body r) of
            Inl err \<Rightarrow>
              response_status (fst (ServeHTTP many meter r \<sigma>)) = 400
              \<and> body (fst (ServeHTTP many meter r \<sigma>)) = [ErrStr err, Str ''\<newline>'']
              \<and> repo (snd (ServeHTTP many meter r \<sigma>)) = repo \<sigma>
              \<and> mem (snd (ServeHTTP many meter r \<sigma>)) = mem \<sigma>
          | Inr user \<Rightarrow>
              response_status (fst (ServeHTTP many meter r \<sigma>)) = 201
              \<and> body (fst (ServeHTTP many meter r \<sigma>))
                  = [Json_User (user\<lparr>ID := nextID (repo \<sigma>)\<rparr>), Str ''\<newline>'']
              \<and> header (fst (ServeHTTP many meter r \<sigma>)) ''Content-Type''
                  = Some [Str ''application/json'']
              \<and> Find (repo (snd (ServeHTTP many meter r \<sigma>)))
                      (mem (snd (ServeHTTP many meter r \<sigma>))) (nextID (repo \<sigma>))
                  = (user\<lparr>ID := nextID (repo \<sigma>)\<rparr>, True)
              \<and> stdout (snd (ServeHTTP many meter r \<sigma>))
                  = stdout (snd (ServeHTTP many None r \<sigma>))
                    @ (case meter of None \<Rightarrow> [] | Some e \<Rightarrow> [[Str ''error otel: '', ErrStr e]]))
         \<and> observable (ServeHTTP many meter r \<sigma>) = observable (ServeHTTP many None r \<sigma>)"
  unfolding ServeHTTP_post_users [OF assms]
  by (simp add: ContentTypeMiddleware_def CreateUserHandler_def
      observable_def Save_def Find_def Print_def http_Error_def Encode_def Write_def
      WriteHeader_def Header_Set_def Header_Del_def new_ResponseWriter_def response_status_def
      Let_def split: sum.splits option.splits)

theorem create_user_response_witness:
  \<open>response_status (fst (ServeHTTP other_formats (Some (OtelError ''down''))
       (POST ''/users'' ''{"name":"Ada"}'') new_world)) = 201
   \<and> body (fst (ServeHTTP other_formats (Some (OtelError ''down''))
       (POST ''/users'' ''{"name":"Ada"}'') new_world))
       = [Json_User \<lparr>ID = 1, Name = ''Ada''\<rparr>, Str ''\<newline>'']
   \<and> response_status (fst (ServeHTTP other_formats None
       (POST ''/users'' ''not json'') new_world)) = 400
   \<and> body (fst (ServeHTTP other_formats None (POST ''/users'' ''not json'') new_world))
       = [ErrStr SyntaxError, Str ''\<newline>'']\<close>
proof -
  have m: "Method (POST p b) = ''POST''" and p: "Path (POST ''/users'' b) = ''/users''"
    and b: "Body (POST p b) = b" for p b
    by (simp_all add: POST_def)
  from create_user_response [of \<open>POST ''/users'' ''{"name":"Ada"}''\<close> other_formats
         "Some (OtelError ''down'')" new_world, OF m p]
       create_user_response [of "POST ''/users'' ''not json''" other_formats
         None new_world, OF m p]
  show ?thesis
    by (simp add: b Decode_Ada Decode_not_json new_world_simps)
qed

text \<open>
  Claim C5 as stated ties the answer to the body being valid JSON. The decoder reads the
  first JSON value only: a body with text after a complete object is not valid JSON and is
  answered with 201; and \<^verbatim>\<open>[]\<close> is valid JSON, does not fit \<^verbatim>\<open>User\<close>, and is answered
  with 400.
\<close>

theorem create_user_not_by_validity:
  \<open>\<not> json_Valid ''{"name":"Ada"}x''
   \<and> response_status (fst (ServeHTTP other_formats None
         (POST ''/users'' ''{"name":"Ada"}x'') new_world)) = 201
   \<and> json_Valid ''[]''
   \<and> response_status (fst (ServeHTTP other_formats None
         (POST ''/users'' ''[]'') new_world)) = 400\<close>
proof -
  have m: "Method (POST p b) = ''POST''" and p: "Path (POST ''/users'' b) = ''/users''"
    and b: "Body (POST p b) = b" for p b
    by (simp_all add: POST_def)
  have w: "status (Header_Set new_ResponseWriter ''Content-Type'' [Str ''application/json'']) = None"
    "body (Header_Set new_ResponseWriter ''Content-Type'' [Str ''application/json'']) = []"
    by (simp_all add: Header_Set_def new_ResponseWriter_def)
  have s: "fst (ServeHTTP other_formats None (POST ''/users'' x) new_world)
      = fst (CreateUserHandler None
               (Header_Set new_ResponseWriter ''Content-Type'' [Str ''application/json''])
               ((POST ''/users'' x)\<lparr>Vars := Map.empty\<rparr>)
               (Print new_world [Str ''accept header is not application/json'', Str ''\<newline>'']))"
    for x
    unfolding ServeHTTP_post_users [OF m p]
    by (simp add: ContentTypeMiddleware_def Header_Get_def POST_def Let_def)
  have b': "Body ((POST ''/users'' x)\<lparr>Vars := Map.empty\<rparr>) = x" for x
    by (simp add: POST_def)
  note h = CreateUserHandler_response [OF w, where meter = None]
  from h [where r = \<open>(POST ''/users'' ''{"name":"Ada"}x'')\<lparr>Vars := Map.empty\<rparr>\<close>]
    h [where r = "(POST ''/users'' ''[]'')\<lparr>Vars := Map.empty\<rparr>"]
  show ?thesis
    by (simp add: s b' Decode_Ada_garbage Decode_array Valid_samples)
qed

text \<open>
  Claim C8. When the id variable parses as an integer, the DELETE handler answers 204
  with an empty body and removes the id, whether or not it was stored; a second DELETE of
  the same id is answered in the same way.
\<close>

theorem delete_user_no_content:
  assumes "Atoi (mux_Var r ''id'') = Inr i" and "status w = None" and "body w = []"
  shows "DeleteUserHandler w r \<sigma> = (w\<lparr>status := Some 204\<rparr>, \<sigma>\<lparr>mem := Delete (repo \<sigma>) (mem \<sigma>) i\<rparr>)
         \<and> response_status (fst (DeleteUserHandler w r \<sigma>)) = 204
         \<and> body (fst (DeleteUserHandler w r \<sigma>)) = []
         \<and> snd (Find (repo \<sigma>) (mem (snd (DeleteUserHandler w r \<sigma>))) i) = False
         \<and> response_status (fst (DeleteUserHandler w r (snd (DeleteUserHandler w r \<sigma>)))) = 204
         \<and> body (fst (DeleteUserHandler w r (snd (DeleteUserHandler w r \<sigma>)))) = []"
  using assms
  by (simp add: DeleteUserHandler_def WriteHeader_def response_status_def Find_def Delete_def)

theorem delete_user_no_content_witness:
  "Atoi (mux_Var ((GET ''/users/1'')\<lparr>Method := ''DELETE'', Vars := [''id'' \<mapsto> ''1'']\<rparr>) ''id'') = Inr 1
   \<and> response_status (fst (DeleteUserHandler new_ResponseWriter
        ((GET ''/users/1'')\<lparr>Method := ''DELETE'', Vars := [''id'' \<mapsto> ''1'']\<rparr>) ada_world)) = 204
   \<and> response_status (fst (DeleteUserHandler new_ResponseWriter
        ((GET ''/users/1'')\<lparr>Method := ''DELETE'', Vars := [''id'' \<mapsto> ''1'']\<rparr>)
        (snd (DeleteUserHandler new_ResponseWriter
           ((GET ''/users/1'')\<lparr>Method := ''DELETE'', Vars := [''id'' \<mapsto> ''1'']\<rparr>) ada_world)))) = 204"
proof -
  have a: "Atoi (mux_Var ((GET ''/users/1'')\<lparr>Method := ''DELETE'', Vars := [''id'' \<mapsto> ''1'']\<rparr>) ''id'') = Inr 1"
    by (simp add: mux_Var_def Atoi_def is_digit_def digit_val_def)
  have w: "status new_ResponseWriter = None" "body new_ResponseWriter = []"
    by (simp_all add: new_ResponseWriter_def)
  from delete_user_no_content [OF a w, of ada_world] a
  show ?thesis by blast
qed

lemma mux_Match_same:
  "Method r' = Method r \<Longrightarrow> Path r' = Path r \<Longrightarrow> mux_Match rts r' b = mux_Match rts r b"
  by (induction rts r b rule: mux_Match.induct) (auto split: option.splits)

lemma match_Metrics_path:
  "mux_Match routes r False = Matched Metrics vars \<Longrightarrow> Path r = ''/metrics''"
  by (auto simp: routes_def Let_def split: if_splits)

text \<open>The user handlers read the route variables and the body of a request, nothing else.\<close>

lemma accept_ListUser:
  "observable (ContentTypeMiddleware ListUserHandler w r' \<sigma>)
     = observable (ContentTypeMiddleware ListUserHandler w r \<sigma>)"
  by (simp add: ContentTypeMiddleware_def ListUserHandler_def observable_def Get_def Print_def
      Let_def)

lemma accept_GetUser:
  "Vars r' = Vars r \<Longrightarrow>
   observable (ContentTypeMiddleware GetUserHandler w r' \<sigma>)
     = observable (ContentTypeMiddleware GetUserHandler w r \<sigma>)"
  by (simp add: ContentTypeMiddleware_def GetUserHandler_def observable_def mux_Var_def Print_def
      Let_def split: sum.splits prod.splits)

lemma accept_CreateUser:
  "Body r' = Body r \<Longrightarrow>
   observable (ContentTypeMiddleware (CreateUserHandler meter) w r' \<sigma>)
     = observable (ContentTypeMiddleware (CreateUserHandler meter) w r \<sigma>)"
  by (simp add: ContentTypeMiddleware_def CreateUserHandler_def observable_def Print_def
      Let_def split: sum.splits prod.splits option.splits)

lemma accept_DeleteUser:
  "Vars r' = Vars r \<Longrightarrow>
   observable (ContentTypeMiddleware DeleteUserHandler w r' \<sigma>)
     = observable (ContentTypeMiddleware DeleteUserHandler w r \<sigma>)"
  by (simp add: ContentTypeMiddleware_def DeleteUserHandler_def observable_def mux_Var_def
      Print_def Let_def split: sum.splits)

text \<open>
  Claim C9, as amended. For every handler behind it, the middleware hands the request on
  with the response header \<^verbatim>\<open>Content-Type: application/json\<close> already set, and of its own
  it does nothing with the \<^verbatim>\<open>Accept\<close> header but print one warning line when it is not
  \<^verbatim>\<open>application/json\<close>. For every request to a path other than \<^verbatim>\<open>/metrics\<close>, the response,
  the repository and the counter are those of the same request with
  \<^verbatim>\<open>Accept: application/json\<close>.
\<close>

theorem accept_header_has_no_effect:
  "ContentTypeMiddleware next w r \<sigma>
     = next (w\<lparr>header := (header w)(''Content-Type'' \<mapsto> [Str ''application/json''])\<rparr>) r
         (\<sigma>\<lparr>stdout := stdout \<sigma> @
            (if Header_Get (RHeader r) ''Accept'' = ''application/json'' then []
             else [[Str ''accept header is not application/json'', Str ''\<newline>'']])\<rparr>)
   \<and> (Path r \<noteq> ''/metrics'' \<longrightarrow>
        observable (ServeHTTP many meter r \<sigma>)
          = observable (ServeHTTP many meter
              (r\<lparr>RHeader := (RHeader r)(''Accept'' \<mapsto> ''application/json'')\<rparr>) \<sigma>))"
proof -
  let ?r = "r\<lparr>RHeader := (RHeader r)(''Accept'' \<mapsto> ''application/json'')\<rparr>"
  have a: "ContentTypeMiddleware next w r \<sigma>
     = next (w\<lparr>header := (header w)(''Content-Type'' \<mapsto> [Str ''application/json''])\<rparr>) r
         (\<sigma>\<lparr>stdout := stdout \<sigma> @
            (if Header_Get (RHeader r) ''Accept'' = ''application/json'' then []
             else [[Str ''accept header is not application/json'', Str ''\<newline>'']])\<rparr>)"
    by (simp add: ContentTypeMiddleware_def Header_Set_def Print_def Let_def)
  have b: "observable (ServeHTTP many meter r \<sigma>) = observable (ServeHTTP many meter ?r \<sigma>)"
    if np: "Path r \<noteq> ''/metrics''"
  proof (cases "cleanPath (Path r) = Path r")
    case False
    then show ?thesis
      by (simp add: ServeHTTP_def)
  next
    case True
    have m: "mux_Match routes ?r False = mux_Match routes r False"
      by (rule mux_Match_same) simp_all
    show ?thesis
    proof (cases "mux_Match routes r False")
      case (Matched t vars)
      with np have t: "t \<noteq> Metrics"
        using match_Metrics_path by blast
      have "observable (ContentTypeMiddleware (handler_of many meter t) new_ResponseWriter
                (r\<lparr>Vars := vars\<rparr>) \<sigma>)
          = observable (ContentTypeMiddleware (handler_of many meter t) new_ResponseWriter
                (?r\<lparr>Vars := vars\<rparr>) \<sigma>)"
      proof (cases t)
        case Metrics
        with t show ?thesis by simp
      next
        case ListUser
        then show ?thesis
          by (simp add: handler_of_def) (rule accept_ListUser)
      next
        case GetUser
        then show ?thesis
          by (simp add: handler_of_def) (rule accept_GetUser, simp)
      next
        case CreateUser
        then show ?thesis
          by (simp add: handler_of_def) (rule accept_CreateUser, simp)
      next
        case DeleteUser
        then show ?thesis
          by (simp add: handler_of_def) (rule accept_DeleteUser, simp)
      qed
      then show ?thesis
        by (simp add: ServeHTTP_def m Matched True)
    next
      case MethodNotAllowed
      then show ?thesis
        by (simp add: ServeHTTP_def m True)
    next
      case NotFound
      then show ?thesis
        by (simp add: ServeHTTP_def m True)
    qed
  qed
  from a b show ?thesis by blast
qed

theorem accept_header_has_no_effect_witness:
  "Path ((GET ''/users'')\<lparr>RHeader := [''Accept'' \<mapsto> ''text/html'']\<rparr>) \<noteq> ''/metrics''
   \<and> observable (ServeHTTP other_formats None
        ((GET ''/users'')\<lparr>RHeader := [''Accept'' \<mapsto> ''text/html'']\<rparr>) ada_world)
      = observable (ServeHTTP other_formats None
        ((GET ''/users'')\<lparr>RHeader := [''Accept'' \<mapsto> ''application/json'']\<rparr>) ada_world)"
proof -
  have p: "Path ((GET ''/users'')\<lparr>RHeader := [''Accept'' \<mapsto> ''text/html'']\<rparr>) \<noteq> ''/metrics''"
    by (simp add: GET_def)
  from accept_header_has_no_effect
      [where r = "(GET ''/users'')\<lparr>RHeader := [''Accept'' \<mapsto> ''text/html'']\<rparr>"
         and many = other_formats and meter = None and \<sigma> = ada_world] p
  show ?thesis
    by simp
qed

text \<open>
  Claim C9 as stated covers every request that passes through the middleware, and
  \<^verbatim>\<open>/metrics\<close> does. Its handler negotiates the exposition format on the \<^verbatim>\<open>Accept\<close>
  header: with the protocol buffer media type the response is in that format, with
  \<^verbatim>\<open>application/json\<close> it is the text format.
\<close>

theorem metrics_depends_on_accept:
  "header (fst (ServeHTTP other_formats None
      ((GET ''/metrics'')\<lparr>RHeader := [''Accept'' \<mapsto>
         ''application/vnd.google.protobuf;proto=io.prometheus.client.MetricFamily;encoding=delimited'']\<rparr>)
      new_world)) ''Content-Type'' = Some [FormatStr FmtProtoDelim]
   \<and> body (fst (ServeHTTP other_formats None
      ((GET ''/metrics'')\<lparr>RHeader := [''Accept'' \<mapsto>
         ''application/vnd.google.protobuf;proto=io.prometheus.client.MetricFamily;encoding=delimited'']\<rparr>)
      new_world)) = [Metrics_in FmtProtoDelim]
   \<and> header (fst (ServeHTTP other_formats None
      ((GET ''/metrics'')\<lparr>RHeader := [''Accept'' \<mapsto> ''application/json'']\<rparr>)
      new_world)) ''Content-Type'' = Some [FormatStr FmtText]
   \<and> body (fst (ServeHTTP other_formats None
      ((GET ''/metrics'')\<lparr>RHeader := [''Accept'' \<mapsto> ''application/json'']\<rparr>)
      new_world)) = [Metrics_in FmtText]
   \<and> observable (ServeHTTP other_formats None
      ((GET ''/metrics'')\<lparr>RHeader := [''Accept'' \<mapsto>
         ''application/vnd.google.protobuf;proto=io.prometheus.client.MetricFamily;encoding=delimited'']\<rparr>)
      new_world)
     \<noteq> observable (ServeHTTP other_formats None
      ((GET ''/metrics'')\<lparr>RHeader := [''Accept'' \<mapsto> ''application/json'']\<rparr>)
      new_world)"
proof -
  let ?proto = "ServeHTTP other_formats None
      ((GET ''/metrics'')\<lparr>RHeader := [''Accept'' \<mapsto>
         ''application/vnd.google.protobuf;proto=io.prometheus.client.MetricFamily;encoding=delimited'']\<rparr>)
      new_world"
  let ?json = "ServeHTTP other_formats None
      ((GET ''/metrics'')\<lparr>RHeader := [''Accept'' \<mapsto> ''application/json'']\<rparr>) new_world"
  have a: "header (fst ?proto) ''Content-Type'' = Some [FormatStr FmtProtoDelim]
      \<and> body (fst ?proto) = [Metrics_in FmtProtoDelim]"
    by (simp add: ServeHTTP_def routes_def GET_def cleanPath_def path_Clean_def handler_of_def
        ContentTypeMiddleware_def promhttp_Handler_def Negotiate_def parse_range_def
        parse_param_def trim_spaces_def Header_Get_def Header_Set_def Write_def WriteHeader_def
        new_ResponseWriter_def Print_def List.map_filter_simps Let_def)
  have b: "header (fst ?json) ''Content-Type'' = Some [FormatStr FmtText]
      \<and> body (fst ?json) = [Metrics_in FmtText]"
    by (simp add: ServeHTTP_def routes_def GET_def cleanPath_def path_Clean_def handler_of_def
        ContentTypeMiddleware_def promhttp_Handler_def Negotiate_def parse_range_def
        parse_param_def trim_spaces_def Header_Get_def Header_Set_def Write_def WriteHeader_def
        new_ResponseWriter_def Print_def List.map_filter_simps Let_def)
  from a b have "body (fst ?proto) \<noteq> body (fst ?json)"
    by simp
  then have "observable ?proto \<noteq> observable ?json"
    by (auto simp: observable_def)
  with a b show ?thesis
    by blast
qed

section \<open>Start and shutdown\<close>

lemma main_start_servers:
  "main_start PORT True = \<lparr>servers = [main_srv, listener PORT 0], phase = Running, cut_off = 0\<rparr>"
  by (simp add: main_start_def http_ListenAndServe_def listener_def Let_def)

lemma run_snoc: "run p (es @ [e]) = step (run p es) e"
  by (simp add: run_def)

lemma run_arrivals:
  "run (main_start PORT True) (replicate k Arrive)
     = \<lparr>servers = [main_srv, listener PORT k], phase = Running, cut_off = 0\<rparr>"
proof (induction k)
  case 0
  show ?case by (simp add: run_def main_start_servers)
next
  case (Suc k)
  have "replicate (Suc k) Arrive = replicate k Arrive @ [Arrive]"
    by (simp add: replicate_append_same)
  then show ?case
    by (simp add: run_snoc Suc.IH main_srv_def listener_def del: replicate.simps)
qed

lemma interrupt_after_arrivals:
  "phase (run (main_start PORT True) (replicate k Arrive @ [Interrupt])) = Exited
   \<and> cut_off (run (main_start PORT True) (replicate k Arrive @ [Interrupt])) = k
   \<and> map listening (servers (run (main_start PORT True) (replicate k Arrive @ [Interrupt])))
       = [False, True]"
  by (simp add: run_snoc run_arrivals Shutdown_begin_def Shutdown_wait_def exit_main_def
      main_srv_def listener_def)

text \<open>
  Claim C2. On the interrupt the accepting server should stop accepting and the requests
  in flight should complete before the process ends. \<^verbatim>\<open>main\<close> calls \<^verbatim>\<open>Shutdown\<close> on
  \<^verbatim>\<open>srv\<close>, which never listened; the listener belongs to the server that
  \<^verbatim>\<open>http.ListenAndServe\<close> made. With one request in flight, the interrupt ends the process
  at once: the request is cut off and the accepting server's listener was never closed.
\<close>

theorem interrupt_one_request:
  "phase (run (main_start '''' True) [Arrive, Interrupt]) = Exited
   \<and> cut_off (run (main_start '''' True) [Arrive, Interrupt]) = 1
   \<and> map listening (servers (run (main_start '''' True) [Arrive, Interrupt])) = [False, True]"
  using interrupt_after_arrivals [of "''''" 1] by simp

text \<open>
  Claim C6. The server that accepts connections should carry the read timeout and the
  longer write timeout. After the start, the only server with a listener has no timeout
  at all; the timeouts of one and ten seconds sit on \<^verbatim>\<open>srv\<close>, which does not listen.
\<close>

theorem accepting_server_has_no_timeouts:
  "map (\<lambda>s. (ReadTimeout s, WriteTimeout s)) (filter listening (servers (main_start PORT True)))
     = [(0, 0)]
   \<and> map (\<lambda>s. (ReadTimeout s, WriteTimeout s)) (filter (\<lambda>s. \<not> listening s) (servers (main_start PORT True)))
     = [(Second, 10 * Second)]"
  by (simp add: main_start_servers main_srv_def listener_def)

end
